theory Spec2Isabelle
  imports Complex_Main "HOL-Library.Word"
begin

section \<open>Texture export scripts: the data model\<close>

text \<open>
  The two scripts under \<^verbatim>\<open>assets/textures/texture_support/scripts\<close> are straight-line
  NumPy and Pillow code. A NumPy array of three axes (row, column, channel) is a list of
  rows, a row a list of pixels, a pixel a list of channel samples; a mask of two axes is
  a list of rows of booleans. An \<^verbatim>\<open>uint8\<close> sample is an \<open>8 word\<close>.

  A \<^verbatim>\<open>float32\<close> sample is a \<open>real\<close>: \<open>+\<close>, \<open>/\<close>, \<open>*\<close> and \<open>**\<close> are the exact
  operations on the reals and no rounding is modelled. Every statement below about a
  sample value is therefore a statement about the formula the script evaluates, not about
  the bits of its IEEE-754 result. The comparisons the script makes behave alike in both
  readings on the samples it can meet: \<open>n / 255 = 1\<close> holds for \<open>n = 255\<close> only, and no
  \<open>n / 255\<close> lies at the threshold \<open>0.04045\<close>.
\<close>

type_synonym 'a array2 = "'a list list"
type_synonym 'a array3 = "'a list list list"

text \<open>\<open>has_shape h w n a\<close>: the array \<open>a\<close> has \<^verbatim>\<open>a.shape == (h, w, n)\<close>.\<close>

definition has_shape :: "nat \<Rightarrow> nat \<Rightarrow> nat \<Rightarrow> 'a array3 \<Rightarrow> bool" where
  "has_shape h w n a =
     (length a = h \<and> list_all (\<lambda>row. length row = w \<and> list_all (\<lambda>px. length px = n) row) a)"

subsection \<open>The NumPy operations the scripts call\<close>

text \<open>
  An arithmetic or comparison operator between an array and a Python scalar broadcasts
  the scalar: the operation is applied to every sample on its own.
\<close>

definition ew3 :: "('a \<Rightarrow> 'b) \<Rightarrow> 'a array3 \<Rightarrow> 'b array3" where
  "ew3 f a = map (map (map f)) a"

definition zip_with3 :: "('a \<Rightarrow> 'b \<Rightarrow> 'c \<Rightarrow> 'd) \<Rightarrow> 'a list \<Rightarrow> 'b list \<Rightarrow> 'c list \<Rightarrow> 'd list" where
  "zip_with3 f cs xs ys = map (\<lambda>(c, x, y). f c x y) (zip cs (zip xs ys))"

text \<open>
  \<^verbatim>\<open>np.where(cond, x, y)\<close> on three arrays of one shape: sample by sample, \<open>x\<close> where the
  condition holds and \<open>y\<close> elsewhere. Both \<open>x\<close> and \<open>y\<close> are whole arrays, computed
  before the selection.
\<close>

definition np_where :: "bool array3 \<Rightarrow> 'a array3 \<Rightarrow> 'a array3 \<Rightarrow> 'a array3" where
  "np_where = zip_with3 (zip_with3 (zip_with3 (\<lambda>c x y. if c then x else y)))"

text \<open>\<^verbatim>\<open>np.all(b, axis=-1)\<close>: the conjunction over the channel axis, one boolean per pixel.\<close>

definition np_all_last :: "bool array3 \<Rightarrow> bool array2" where
  "np_all_last b = map (map (list_all (\<lambda>v. v))) b"

text \<open>
  \<^verbatim>\<open>a[m] *= k\<close> for a mask \<open>m\<close> over the first two axes: every channel of every pixel
  the mask selects is multiplied by \<open>k\<close> in place, the other pixels are left as they are.
  The function returns the updated array.
\<close>

definition imul_masked :: "real array3 \<Rightarrow> bool array2 \<Rightarrow> real \<Rightarrow> real array3" where
  "imul_masked a m k =
     map (\<lambda>(row, mrow). map (\<lambda>(px, b). if b then map (\<lambda>v. v * k) px else px) (zip row mrow))
       (zip a m)"

text \<open>
  \<^verbatim>\<open>a.transpose(2, 0, 1)\<close>: the result \<open>t\<close> has \<open>t[c][i][j] = a[i][j][c]\<close> and the shape
  \<^verbatim>\<open>(a.shape[2], a.shape[0], a.shape[1])\<close>. A list of lists carries \<^verbatim>\<open>a.shape[2]\<close>
  only when it has a pixel, so \<open>shape2\<close> reads it off the first one; a decoded PNG has at
  least one row and one column.
\<close>

definition shape2 :: "'a array3 \<Rightarrow> nat" where
  "shape2 a = (case a of [] \<Rightarrow> 0 | row # _ \<Rightarrow> (case row of [] \<Rightarrow> 0 | px # _ \<Rightarrow> length px))"

definition transpose_201 :: "'a array3 \<Rightarrow> 'a array3" where
  "transpose_201 a = map (\<lambda>c. map (map (\<lambda>px. px ! c)) a) [0..<shape2 a]"

subsection \<open>\<^verbatim>\<open>export-exr-hdr.py\<close>\<close>

text \<open>
  \<^verbatim>\<open>
  def srgb_to_linear(srgb):
      return np.where(srgb <= 0.04045,
                      srgb / 12.92,
                      ((srgb + 0.055) / 1.055) ** 2.4)
  \<close>
  The second and third argument are named here, the function keeps its name. On a
  positive base \<open>**\<close> is \<open>powr\<close>, and every base \<open>(s + 0.055) / 1.055\<close> of a sample
  \<open>s \<ge> 0\<close> is positive.
\<close>

definition linear_branch :: "real array3 \<Rightarrow> real array3" where
  "linear_branch srgb = ew3 (\<lambda>s. s / 12.92) srgb"

definition gamma_branch :: "real array3 \<Rightarrow> real array3" where
  "gamma_branch srgb = ew3 (\<lambda>s. s powr 2.4) (ew3 (\<lambda>s. s / 1.055) (ew3 (\<lambda>s. s + 0.055) srgb))"

definition srgb_to_linear :: "real array3 \<Rightarrow> real array3" where
  "srgb_to_linear srgb =
     np_where (ew3 (\<lambda>s. s \<le> 0.04045) srgb) (linear_branch srgb) (gamma_branch srgb)"

text \<open>
  The body of the script, one definition for each assignment, each a function of the
  decoded \<^verbatim>\<open>uint8\<close> image \<open>raw\<close> that \<^verbatim>\<open>iio.imread\<close> returns:
  \<^verbatim>\<open>
  img_srgb = iio.imread(input_filename).astype(np.float32) / 255.0
  img_linear = srgb_to_linear(img_srgb)
  pure_white_mask = np.all(img_srgb == 1.0, axis=-1)
  img_linear[pure_white_mask] *= 10.0
  img_exr = img_linear.transpose(2, 0, 1)
  \<close>
  \<open>img_linear\<close> is the array before the update in place and \<open>img_linear_boosted\<close> the
  array after it.
\<close>

definition img_srgb :: "8 word array3 \<Rightarrow> real array3" where
  "img_srgb raw = ew3 (\<lambda>x. x / 255.0) (ew3 (\<lambda>b. real (unat b)) raw)"

definition img_linear :: "8 word array3 \<Rightarrow> real array3" where
  "img_linear raw = srgb_to_linear (img_srgb raw)"

definition pure_white_mask :: "8 word array3 \<Rightarrow> bool array2" where
  "pure_white_mask raw = np_all_last (ew3 (\<lambda>s. s = 1.0) (img_srgb raw))"

definition img_linear_boosted :: "8 word array3 \<Rightarrow> real array3" where
  "img_linear_boosted raw = imul_masked (img_linear raw) (pure_white_mask raw) 10.0"

definition img_exr :: "8 word array3 \<Rightarrow> real array3" where
  "img_exr raw = transpose_201 (img_linear_boosted raw)"

text \<open>
  The transfer function as the specification writes it, for one sample: the reference
  the array code is compared with.
\<close>

definition transfer :: "real \<Rightarrow> real" where
  "transfer s = (if s \<le> 0.04045 then s / 12.92 else ((s + 0.055) / 1.055) powr 2.4)"

subsection \<open>\<^verbatim>\<open>export-ldr-formats.py\<close>: strings, paths and indexing\<close>

text \<open>
  The dictionary \<^verbatim>\<open>formats\<close>, in insertion order, which is the order \<^verbatim>\<open>items()\<close>
  iterates in. The loop tests \<^verbatim>\<open>fmt is None\<close>, so a value is an optional string.
\<close>

definition formats :: "(string \<times> string option) list" where
  "formats =
    [(''bmp'', Some ''bmp''),
     (''dds'', Some ''dds''),
     (''gif'', Some ''gif''),
     (''ico'', Some ''ico''),
     (''jpg'', Some ''jpeg''),
     (''qoi'', Some ''qoi''),
     (''tga'', Some ''tga''),
     (''tif'', Some ''tiff''),
     (''webp'', Some ''webp''),
     (''pam'', Some ''pam''),
     (''ppm'', Some ''ppm'')]"

definition output_dir :: string where
  "output_dir = ''./''"

text \<open>
  \<^verbatim>\<open>os.path.join(a, b)\<close> of \<^verbatim>\<open>posixpath\<close>: an absolute \<open>b\<close> replaces \<open>a\<close>, and a
  separator is put between the two unless \<open>a\<close> is empty or ends with one.
\<close>

definition path_join :: "string \<Rightarrow> string \<Rightarrow> string" where
  "path_join a b =
     (if take 1 b = ''/'' then b
      else if a = [] \<or> last a = CHR ''/'' then a @ b
      else a @ ''/'' @ b)"

text \<open>\<^verbatim>\<open>str.upper\<close> on ASCII text, which every value of \<open>formats\<close> is.\<close>

definition upper_char :: "char \<Rightarrow> char" where
  "upper_char c =
     (case map_of (zip ''abcdefghijklmnopqrstuvwxyz'' ''ABCDEFGHIJKLMNOPQRSTUVWXYZ'') c of
        Some u \<Rightarrow> u
      | None \<Rightarrow> c)"

definition upper :: "string \<Rightarrow> string" where
  "upper s = map upper_char s"

text \<open>
  An exception the \<^verbatim>\<open>try\<close> block can meet: the \<^verbatim>\<open>IndexError\<close> of NumPy's indexing
  (index, axis, size of the axis), or one a codec library raises, kept as the text
  \<^verbatim>\<open>str(e)\<close> the handler prints. \<open>str_exn\<close> is \<^verbatim>\<open>str(e)\<close>.
\<close>

datatype exn = IndexError nat nat nat | LibraryError string

fun str_nat :: "nat \<Rightarrow> string" where
  "str_nat n =
     (if n < 10 then [''0123456789'' ! n] else str_nat (n div 10) @ [''0123456789'' ! (n mod 10)])"

declare str_nat.simps [simp del]

fun str_exn :: "exn \<Rightarrow> string" where
  "str_exn (IndexError k ax n) =
     ''index '' @ str_nat k @ '' is out of bounds for axis '' @ str_nat ax @ '' with size '' @ str_nat n"
| "str_exn (LibraryError msg) = msg"

text \<open>
  \<^verbatim>\<open>a[..., idx]\<close> for a list \<open>idx\<close> of channel numbers: every pixel is replaced by its
  channels in the order of \<open>idx\<close>. NumPy raises \<^verbatim>\<open>IndexError\<close> for the first index that
  is not below \<^verbatim>\<open>a.shape[2]\<close>.
\<close>

definition take_last :: "nat list \<Rightarrow> 'a array3 \<Rightarrow> exn + 'a array3" where
  "take_last idx a =
     (case find (\<lambda>k. \<not> k < shape2 a) idx of
        Some k \<Rightarrow> Inl (IndexError k 2 (shape2 a))
      | None \<Rightarrow> Inr (map (map (\<lambda>px. map (\<lambda>k. px ! k) idx)) a))"

subsection \<open>\<^verbatim>\<open>export-ldr-formats.py\<close>: the codec libraries and the loop\<close>

text \<open>
  Pillow, imageio and qoi are not part of the repository. A Pillow image is a value of
  an arbitrary type \<open>'img\<close>, and the script is a function of a \<open>library\<close>:
  \<^item> \<open>convert L mode img\<close> is \<^verbatim>\<open>img.convert(mode)\<close> and \<open>np_array L img\<close> is
    \<^verbatim>\<open>np.array(img)\<close>, both without effect on the file system and both taken to
    return: a conversion of the loaded image that raises is not modelled;
  \<^item> \<open>perform L c w\<close> runs the writing call \<open>c\<close> in the world \<open>w\<close> (the file system and
    whatever else the codecs read) and returns the world after it with \<open>None\<close>, or with
    \<open>Some msg\<close> when the call raised an \<^verbatim>\<open>Exception\<close> whose text is \<open>msg\<close>.

  The three writing calls of the script:
  \<^item> \<open>QoiWrite file a\<close>: \<^verbatim>\<open>with open(file, "wb") as f: f.write(qoi.encode(a))\<close>;
  \<^item> \<open>ImWrite file a ext\<close>: \<^verbatim>\<open>iio.imwrite(file, a)\<close>, with \<^verbatim>\<open>extension=ext\<close> when given;
  \<^item> \<open>PilSave file img fmt\<close>: \<^verbatim>\<open>img.save(file, format=fmt)\<close>.
\<close>

datatype 'img call =
    QoiWrite string "8 word array3"
  | ImWrite string "8 word array3" "string option"
  | PilSave string 'img string

record ('img, 'w) library =
  convert :: "string \<Rightarrow> 'img \<Rightarrow> 'img"
  np_array :: "'img \<Rightarrow> 8 word array3"
  perform :: "'img call \<Rightarrow> 'w \<Rightarrow> string option \<times> 'w"

text \<open>
  The state of a run: the world, and the lines printed so far. Two more fields observe
  the run without taking part in it: \<open>calls\<close> lists the writing calls made, in order,
  and \<open>attempts\<close> the passes through the \<^verbatim>\<open>try\<close> statement, each with the key
  \<^verbatim>\<open>ext\<close>, the file name and the exception the handler caught, if any.
\<close>

datatype attempt = Attempt (a_ext: string) (a_file: string) (a_result: "exn option")

record ('img, 'w) state =
  world :: 'w
  stdout :: "string list"
  attempts :: "attempt list"
  calls :: "'img call list"

definition print :: "string \<Rightarrow> ('img, 'w) state \<Rightarrow> ('img, 'w) state" where
  "print line st = st\<lparr>stdout := stdout st @ [line]\<rparr>"

definition do_call ::
  "('img, 'w) library \<Rightarrow> 'img call \<Rightarrow> ('img, 'w) state \<Rightarrow> exn option \<times> ('img, 'w) state" where
  "do_call L c st =
     (case perform L c (world st) of
        (r, w') \<Rightarrow> (map_option LibraryError r, st\<lparr>world := w', calls := calls st @ [c]\<rparr>))"

text \<open>
  The body of the \<^verbatim>\<open>try\<close> statement, with the exception it ends in, if any:
  \<^verbatim>\<open>
  if fmt == "qoi":
      img_rgba = img.convert("RGBA")
      img_data = np.array(img_rgba)
      with open(output_filename, "wb") as f:
          f.write(qoi.encode(img_data))
  elif fmt == "dds":
      img_rgba = img.convert("RGB")
      img_array_rgba = np.array(img_rgba)
      img_bgra = img_array_rgba[..., [2, 1, 0]] # Swap R and B
      iio.imwrite(output_filename, img_bgra, extension=".dds")
  elif fmt == "pam":
      iio.imwrite(output_filename, img_array)
  elif fmt == "ico":
      img_rgba = img.convert("RGBA")
      img_rgba.save(output_filename, format="ICO")
  else:
      img.save(output_filename, format=fmt.upper())
  \<close>
\<close>

definition try_body ::
  "('img, 'w) library \<Rightarrow> 'img \<Rightarrow> 8 word array3 \<Rightarrow> string \<Rightarrow> string \<Rightarrow> ('img, 'w) state
     \<Rightarrow> exn option \<times> ('img, 'w) state" where
  "try_body L img img_array fmt output_filename st =
     (if fmt = ''qoi'' then
        let img_rgba = convert L ''RGBA'' img;
            img_data = np_array L img_rgba
        in do_call L (QoiWrite output_filename img_data) st
      else if fmt = ''dds'' then
        let img_rgba = convert L ''RGB'' img;
            img_array_rgba = np_array L img_rgba
        in (case take_last [2, 1, 0] img_array_rgba of
              Inl e \<Rightarrow> (Some e, st)
            | Inr img_bgra \<Rightarrow> do_call L (ImWrite output_filename img_bgra (Some ''.dds'')) st)
      else if fmt = ''pam'' then
        do_call L (ImWrite output_filename img_array None) st
      else if fmt = ''ico'' then
        let img_rgba = convert L ''RGBA'' img
        in do_call L (PilSave output_filename img_rgba ''ICO'') st
      else
        do_call L (PilSave output_filename img (upper fmt)) st)"

text \<open>
  The loop over \<^verbatim>\<open>formats.items()\<close>:
  \<^verbatim>\<open>
  for ext, fmt in formats.items():
      if fmt is None:
          print(f"Skipping {ext} (unsupported format)")
          continue
      output_filename = os.path.join(output_dir, f"{ext}.{ext}")
      try:
          ...
          print(f"Saved: {output_filename}")
      except Exception as e:
          print(f"Failed to save {ext}: {e}")
  \<close>
  The handler catches every \<^verbatim>\<open>Exception\<close>; an interrupt of the interpreter, which it
  does not catch, is not modelled.
\<close>

fun export_loop ::
  "('img, 'w) library \<Rightarrow> 'img \<Rightarrow> 8 word array3 \<Rightarrow> (string \<times> string option) list
     \<Rightarrow> ('img, 'w) state \<Rightarrow> ('img, 'w) state" where
  "export_loop L img img_array [] st = st"
| "export_loop L img img_array ((ext, None) # rest) st =
     export_loop L img img_array rest (print (''Skipping '' @ ext @ '' (unsupported format)'') st)"
| "export_loop L img img_array ((ext, Some fmt) # rest) st =
     (let output_filename = path_join output_dir (ext @ ''.'' @ ext)
      in case try_body L img img_array fmt output_filename st of
           (None, st') \<Rightarrow>
             export_loop L img img_array rest
               (print (''Saved: '' @ output_filename)
                  (st'\<lparr>attempts := attempts st' @ [Attempt ext output_filename None]\<rparr>))
         | (Some e, st') \<Rightarrow>
             export_loop L img img_array rest
               (print (''Failed to save '' @ ext @ '': '' @ str_exn e)
                  (st'\<lparr>attempts := attempts st' @ [Attempt ext output_filename (Some e)]\<rparr>)))"

text \<open>
  The whole script, from the opened image \<open>img\<close> and the world \<open>w\<close> it starts in;
  \<^verbatim>\<open>img_array = np.array(img)\<close> is computed once, before the loop.
\<close>

definition export_ldr_formats :: "('img, 'w) library \<Rightarrow> 'img \<Rightarrow> 'w \<Rightarrow> ('img, 'w) state" where
  "export_ldr_formats L img w =
     export_loop L img (np_array L img) formats
       \<lparr>world = w, stdout = [], attempts = [], calls = []\<rparr>"


fun log_line :: "attempt \<Rightarrow> string" where
  "log_line (Attempt ext fname None) = ''Saved: '' @ fname"
| "log_line (Attempt ext fname (Some e)) = ''Failed to save '' @ ext @ '': '' @ str_exn e"




section \<open>Indexing lemmas\<close>

lemma nth_zip_with3:
  "i < length cs \<Longrightarrow> length xs = length cs \<Longrightarrow> length ys = length cs \<Longrightarrow>
   zip_with3 f cs xs ys ! i = f (cs ! i) (xs ! i) (ys ! i)"
  by (simp add: zip_with3_def)

lemma length_zip_with3:
  "length xs = length cs \<Longrightarrow> length ys = length cs \<Longrightarrow> length (zip_with3 f cs xs ys) = length cs"
  by (simp add: zip_with3_def)

lemma nth_ew3:
  "i < length a \<Longrightarrow> j < length (a ! i) \<Longrightarrow> c < length (a ! i ! j) \<Longrightarrow>
   ew3 f a ! i ! j ! c = f (a ! i ! j ! c)"
  by (simp add: ew3_def)

lemma length_ew3: "length (ew3 f a) = length a"
  by (simp add: ew3_def)

lemma length_ew3_row: "i < length a \<Longrightarrow> length (ew3 f a ! i) = length (a ! i)"
  by (simp add: ew3_def)

lemma length_ew3_px:
  "i < length a \<Longrightarrow> j < length (a ! i) \<Longrightarrow> length (ew3 f a ! i ! j) = length (a ! i ! j)"
  by (simp add: ew3_def)

lemmas ew3_simps = nth_ew3 length_ew3 length_ew3_row length_ew3_px

lemma nth_srgb_to_linear:
  assumes "i < length a" "j < length (a ! i)" "c < length (a ! i ! j)"
  shows "srgb_to_linear a ! i ! j ! c = transfer (a ! i ! j ! c)"
  using assms
  by (simp add: srgb_to_linear_def np_where_def linear_branch_def gamma_branch_def
      nth_zip_with3 ew3_simps transfer_def)

lemma length_srgb_to_linear: "length (srgb_to_linear a) = length a"
  by (simp add: srgb_to_linear_def np_where_def linear_branch_def gamma_branch_def
      length_zip_with3 ew3_simps)

lemma length_srgb_to_linear_row:
  "i < length a \<Longrightarrow> length (srgb_to_linear a ! i) = length (a ! i)"
  by (simp add: srgb_to_linear_def np_where_def linear_branch_def gamma_branch_def
      nth_zip_with3 length_zip_with3 ew3_simps)

lemma length_srgb_to_linear_px:
  "i < length a \<Longrightarrow> j < length (a ! i) \<Longrightarrow>
   length (srgb_to_linear a ! i ! j) = length (a ! i ! j)"
  by (simp add: srgb_to_linear_def np_where_def linear_branch_def gamma_branch_def
      nth_zip_with3 length_zip_with3 ew3_simps)

lemma nth_img_srgb:
  "i < length raw \<Longrightarrow> j < length (raw ! i) \<Longrightarrow> c < length (raw ! i ! j) \<Longrightarrow>
   img_srgb raw ! i ! j ! c = real (unat (raw ! i ! j ! c)) / 255"
  by (simp add: img_srgb_def ew3_simps)

lemma unat_byte_le: "unat (b :: 8 word) \<le> 255"
  using unsigned_less [of b, where ?'a = nat] by simp

lemma real_byte_le: "0 \<le> real (unat (b :: 8 word)) \<and> real (unat b) \<le> 255"
proof -
  have "real (unat b) \<le> real 255"
    using unat_byte_le [of b] by (simp only: of_nat_le_iff)
  moreover have "0 \<le> real (unat b)" by (rule of_nat_0_le_iff)
  ultimately show ?thesis by simp
qed

lemma img_srgb_range:
  assumes "i < length raw" "j < length (raw ! i)" "c < length (raw ! i ! j)"
  shows "0 \<le> img_srgb raw ! i ! j ! c \<and> img_srgb raw ! i ! j ! c \<le> 1"
  using assms real_byte_le [of "raw ! i ! j ! c"] by (simp add: nth_img_srgb)

section \<open>The transfer function, sample by sample\<close>

text \<open>
  Claim C1. Every sample \<open>s\<close> of the normalised buffer lies in \<open>[0, 1]\<close>, and
  \<open>srgb_to_linear\<close> returns at its position \<open>s / 12.92\<close> when \<open>s \<le> 0.04045\<close> and
  \<open>((s + 0.055) / 1.055) ^ 2.4\<close> otherwise. The position is any one of the buffer, of a
  pure-white pixel or not: the function reads no mask.
\<close>

theorem srgb_to_linear_elementwise:
  fixes raw :: "8 word array3"
  assumes "i < length raw" "j < length (raw ! i)" "c < length (raw ! i ! j)"
  shows "0 \<le> img_srgb raw ! i ! j ! c \<and> img_srgb raw ! i ! j ! c \<le> 1 \<and>
     srgb_to_linear (img_srgb raw) ! i ! j ! c =
       (if img_srgb raw ! i ! j ! c \<le> 0.04045 then img_srgb raw ! i ! j ! c / 12.92
        else ((img_srgb raw ! i ! j ! c + 0.055) / 1.055) powr 2.4)"
proof -
  have len: "i < length (img_srgb raw)" "j < length (img_srgb raw ! i)"
    "c < length (img_srgb raw ! i ! j)"
    using assms by (simp_all add: img_srgb_def ew3_simps)
  show ?thesis
    using img_srgb_range [OF assms] nth_srgb_to_linear [OF len]
    by (simp add: transfer_def)
qed

theorem srgb_to_linear_elementwise_witness:
  "srgb_to_linear (img_srgb [[[255, 0, 10]]]) ! 0 ! 0 ! 2 = (10 / 255) / 12.92"
  using srgb_to_linear_elementwise [of 0 "[[[255, 0, 10]]]" 0 2]
  by (simp add: img_srgb_def ew3_def)

section \<open>Shapes, the mask and the update in place\<close>

lemma has_shape_nth:
  "has_shape h w n a \<longleftrightarrow>
     length a = h \<and> (\<forall>i<h. length (a ! i) = w \<and> (\<forall>j<w. length (a ! i ! j) = n))"
  by (auto simp: has_shape_def list_all_length)

lemma shape2_has_shape:
  assumes "has_shape h w n a" "0 < h" "0 < w"
  shows "shape2 a = n"
proof -
  from assms obtain row rows where a: "a = row # rows"
    by (cases a) (auto simp: has_shape_def)
  with assms obtain px pxs where row: "row = px # pxs"
    by (cases row) (auto simp: has_shape_def)
  from assms a row show ?thesis
    by (simp add: shape2_def has_shape_def)
qed

lemma nth_transpose_201:
  assumes "has_shape h w n a" "c < n" "i < h" "j < w"
  shows "transpose_201 a ! c ! i ! j = a ! i ! j ! c"
proof -
  have n: "shape2 a = n" using assms by (intro shape2_has_shape [of h w]) auto
  from assms have "length a = h" "length (a ! i) = w"
    by (simp_all add: has_shape_nth)
  with assms n show ?thesis by (simp add: transpose_201_def)
qed

lemma has_shape_transpose_201:
  assumes "has_shape h w n a" "0 < h" "0 < w"
  shows "has_shape n h w (transpose_201 a)"
proof -
  have n: "shape2 a = n" using assms by (rule shape2_has_shape)
  from assms(1) have len: "length a = h" "\<And>i. i < h \<Longrightarrow> length (a ! i) = w"
    by (simp_all add: has_shape_nth)
  show ?thesis
    unfolding has_shape_nth using n len by (simp add: transpose_201_def)
qed

lemma has_shape_ew3: "has_shape h w n a \<Longrightarrow> has_shape h w n (ew3 f a)"
  by (simp add: has_shape_nth ew3_simps)

lemma has_shape_img_srgb: "has_shape h w n raw \<Longrightarrow> has_shape h w n (img_srgb raw)"
  by (simp add: img_srgb_def has_shape_ew3)

lemma has_shape_srgb_to_linear: "has_shape h w n a \<Longrightarrow> has_shape h w n (srgb_to_linear a)"
  by (simp add: has_shape_nth length_srgb_to_linear length_srgb_to_linear_row
      length_srgb_to_linear_px)

lemma nth_np_all_last:
  "i < length b \<Longrightarrow> j < length (b ! i) \<Longrightarrow> np_all_last b ! i ! j = list_all (\<lambda>v. v) (b ! i ! j)"
  by (simp add: np_all_last_def)

lemma nth_pure_white_mask:
  assumes "i < length raw" "j < length (raw ! i)"
  shows "pure_white_mask raw ! i ! j = list_all (\<lambda>s. s = 1) (img_srgb raw ! i ! j)"
  using assms
  by (simp add: pure_white_mask_def np_all_last_def img_srgb_def ew3_def list_all_iff)

lemma length_pure_white_mask: "length (pure_white_mask raw) = length raw"
  by (simp add: pure_white_mask_def np_all_last_def img_srgb_def ew3_def)

lemma length_pure_white_mask_row:
  "i < length raw \<Longrightarrow> length (pure_white_mask raw ! i) = length (raw ! i)"
  by (simp add: pure_white_mask_def np_all_last_def img_srgb_def ew3_def)

lemma nth_imul_masked:
  assumes "i < length a" "length m = length a" "j < length (a ! i)"
    "length (m ! i) = length (a ! i)"
  shows "imul_masked a m k ! i ! j =
     (if m ! i ! j then map (\<lambda>v. v * k) (a ! i ! j) else a ! i ! j)"
  using assms by (simp add: imul_masked_def)

lemma length_imul_masked: "length m = length a \<Longrightarrow> length (imul_masked a m k) = length a"
  by (simp add: imul_masked_def)

lemma length_imul_masked_row:
  "i < length a \<Longrightarrow> length m = length a \<Longrightarrow> length (m ! i) = length (a ! i) \<Longrightarrow>
   length (imul_masked a m k ! i) = length (a ! i)"
  by (simp add: imul_masked_def)

lemma has_shape_img_linear: "has_shape h w n raw \<Longrightarrow> has_shape h w n (img_linear raw)"
  by (simp add: img_linear_def has_shape_srgb_to_linear has_shape_img_srgb)

lemma nth_img_linear_boosted:
  assumes "has_shape h w n raw" "i < h" "j < w"
  shows "img_linear_boosted raw ! i ! j =
     (if pure_white_mask raw ! i ! j then map (\<lambda>v. v * 10) (img_linear raw ! i ! j)
      else img_linear raw ! i ! j)"
proof -
  have l: "has_shape h w n (img_linear raw)" using assms(1) by (rule has_shape_img_linear)
  have r: "length raw = h" "length (raw ! i) = w"
    using assms by (simp_all add: has_shape_nth)
  have "length (img_linear raw) = h" "length (img_linear raw ! i) = w"
    using l assms by (simp_all add: has_shape_nth)
  with assms r show ?thesis
    unfolding img_linear_boosted_def
    by (subst nth_imul_masked)
      (simp_all add: length_pure_white_mask length_pure_white_mask_row)
qed

lemma has_shape_img_linear_boosted:
  assumes "has_shape h w n raw"
  shows "has_shape h w n (img_linear_boosted raw)"
proof -
  have l: "has_shape h w n (img_linear raw)" using assms by (rule has_shape_img_linear)
  have len: "length (img_linear_boosted raw) = h"
    using l assms
    by (simp add: img_linear_boosted_def length_imul_masked length_pure_white_mask has_shape_nth)
  have row: "length (img_linear_boosted raw ! i) = w" if "i < h" for i
    using l assms that
    by (simp add: img_linear_boosted_def length_imul_masked_row length_pure_white_mask
        length_pure_white_mask_row has_shape_nth)
  have px: "length (img_linear_boosted raw ! i ! j) = n" if "i < h" "j < w" for i j
    using nth_img_linear_boosted [OF assms that] l that by (simp add: has_shape_nth)
  show ?thesis unfolding has_shape_nth using len row px by simp
qed

lemma nth_img_linear:
  assumes "has_shape h w n raw" "i < h" "j < w" "c < n"
  shows "img_linear raw ! i ! j ! c = transfer (img_srgb raw ! i ! j ! c)"
proof -
  have "has_shape h w n (img_srgb raw)" using assms(1) by (rule has_shape_img_srgb)
  with assms show ?thesis
    unfolding img_linear_def by (intro nth_srgb_to_linear) (simp_all add: has_shape_nth)
qed

lemma transfer_1: "transfer 1 = 1"
  by (simp add: transfer_def)

lemma white3:
  "length px = 3 \<Longrightarrow> list_all P px \<longleftrightarrow> P (px ! 0) \<and> P (px ! 1) \<and> P (px ! 2)"
  by (cases px rule: list.exhaust; simp; cases "tl px"; simp; cases "tl (tl px)"; auto)

section \<open>The transfer function on the reals\<close>

lemma transfer_nonneg: "0 \<le> s \<Longrightarrow> 0 \<le> transfer s"
  by (simp add: transfer_def)

lemma transfer_le_1: 
  assumes "0 \<le> s" "s \<le> 1" shows "transfer s \<le> 1"
proof (cases "s \<le> 0.04045")
  case True
  then show ?thesis using assms by (simp add: transfer_def)
next
  case False
  have "((s + 0.055) / 1.055) powr 2.4 \<le> 1"
    using assms by (intro powr_le1) simp_all
  with False show ?thesis by (simp add: transfer_def)
qed

lemma boundary_gap_lower:
  "(0.04045::real) / 12.92 + 23 / 10 ^ 10 < ((0.04045 + 0.055) / 1.055) powr 2.4"
proof -
  let ?x = "(0.04045 + 0.055) / 1.055 :: real"
  let ?l = "(0.04045::real) / 12.92 + 23 / 10 ^ 10"
  have "(?x powr 2.4) ^ 5 = (?x powr 2.4) powr (real 5)"
    by (subst powr_realpow) simp_all
  also have "\<dots> = ?x powr 12" by (simp add: powr_powr)
  also have "\<dots> = ?x ^ 12" using powr_realpow [of ?x 12] by simp
  finally have e: "(?x powr 2.4) ^ 5 = ?x ^ 12" .
  have "?l ^ 5 < ?x ^ 12" by (simp add: field_simps)
  then have "?l ^ 5 < (?x powr 2.4) ^ 5" using e by simp
  then show ?thesis by (rule power_less_imp_less_base) simp
qed


lemma transfer_mono:
  assumes "s1 \<le> s2"
  shows "transfer s1 \<le> transfer s2"
proof -
  consider "s2 \<le> 0.04045" | "0.04045 < s1" | "s1 \<le> 0.04045" "0.04045 < s2"
    using assms by linarith
  then show ?thesis
  proof cases
    case 1
    with assms show ?thesis by (simp add: transfer_def)
  next
    case 2
    with assms have "((s1 + 0.055) / 1.055) powr 2.4 \<le> ((s2 + 0.055) / 1.055) powr 2.4"
      by (intro powr_mono2) (simp_all add: divide_right_mono)
    with 2 assms show ?thesis by (simp add: transfer_def)
  next
    case 3
    have "s1 / 12.92 \<le> 0.04045 / 12.92" using 3 by simp
    also have "\<dots> \<le> ((0.04045 + 0.055) / 1.055) powr 2.4"
      using boundary_gap_lower by simp
    also have "\<dots> \<le> ((s2 + 0.055) / 1.055) powr 2.4"
      using 3 by (intro powr_mono2) (simp_all add: divide_right_mono)
    finally show ?thesis using 3 by (simp add: transfer_def)
  qed
qed






section \<open>The HDR pipeline\<close>

text \<open>
  Claim C2. In an image of three channels, a pixel whose three normalised samples all
  equal \<open>1\<close> has each of its output values equal to \<open>10\<close> times the conversion of
  \<open>1\<close>; every output value of any other pixel is the plain conversion of its sample.
  The output value of channel \<open>c\<close> of the pixel in row \<open>i\<close> and column \<open>j\<close> stands at
  \<open>img_exr raw ! c ! i ! j\<close>.
\<close>

theorem pure_white_boost:
  fixes raw :: "8 word array3"
  assumes "has_shape h w 3 raw" "i < h" "j < w" "c < 3"
  shows "img_exr raw ! c ! i ! j =
     (if img_srgb raw ! i ! j ! 0 = 1 \<and> img_srgb raw ! i ! j ! 1 = 1 \<and> img_srgb raw ! i ! j ! 2 = 1
      then 10 * transfer 1
      else transfer (img_srgb raw ! i ! j ! c))"
proof -
  have b: "has_shape h w 3 (img_linear_boosted raw)"
    using assms(1) by (rule has_shape_img_linear_boosted)
  have s: "length (img_srgb raw ! i ! j) = 3"
    using has_shape_img_srgb [OF assms(1)] assms by (simp add: has_shape_nth)
  have r: "i < length raw" "j < length (raw ! i)"
    using assms by (simp_all add: has_shape_nth)
  have m: "pure_white_mask raw ! i ! j \<longleftrightarrow>
      img_srgb raw ! i ! j ! 0 = 1 \<and> img_srgb raw ! i ! j ! 1 = 1 \<and> img_srgb raw ! i ! j ! 2 = 1"
    using r s by (simp add: nth_pure_white_mask white3)
  have l: "length (img_linear raw ! i ! j) = 3"
    using has_shape_img_linear [OF assms(1)] assms by (simp add: has_shape_nth)
  have lin: "img_linear raw ! i ! j ! c = transfer (img_srgb raw ! i ! j ! c)"
    using assms by (rule nth_img_linear)
  have "img_exr raw ! c ! i ! j = img_linear_boosted raw ! i ! j ! c"
    unfolding img_exr_def using b assms(4,2,3) by (rule nth_transpose_201)
  also have "\<dots> = (if pure_white_mask raw ! i ! j then img_linear raw ! i ! j ! c * 10
      else img_linear raw ! i ! j ! c)"
    using nth_img_linear_boosted [OF assms(1,2,3)] l assms(4) by simp
  finally have out: "img_exr raw ! c ! i ! j =
      (if pure_white_mask raw ! i ! j then transfer (img_srgb raw ! i ! j ! c) * 10
       else transfer (img_srgb raw ! i ! j ! c))"
    using lin by simp
  show ?thesis
  proof (cases "pure_white_mask raw ! i ! j")
    case True
    have "c = 0 \<or> c = 1 \<or> c = 2" using assms(4) by arith
    with True m have "img_srgb raw ! i ! j ! c = 1" by auto
    with True m out show ?thesis by simp
  next
    case False
    with m out show ?thesis by auto
  qed
qed

theorem pure_white_boost_witness:
  "img_exr [[[255, 255, 255], [255, 255, 0]]] ! 1 ! 0 ! 0 = 10 \<and>
   img_exr [[[255, 255, 255], [255, 255, 0]]] ! 1 ! 0 ! 1 = 1"
  using pure_white_boost [of 1 2 "[[[255, 255, 255], [255, 255, 0]]]" 0 0 1]
    pure_white_boost [of 1 2 "[[[255, 255, 255], [255, 255, 0]]]" 0 1 1]
  by (simp add: has_shape_def img_srgb_def ew3_def transfer_def)

text \<open>
  Claim C3. For an input buffer of shape \<open>(h, w, 3)\<close>, with \<open>h\<close> and \<open>w\<close> positive as
  they are for a decoded image, the output buffer has the shape \<open>(3, h, w)\<close>: height and
  width are kept and the channel axis comes first, the sample at \<open>(c, i, j)\<close> being the
  sample at \<open>(i, j, c)\<close> of the boosted buffer.
\<close>

theorem img_exr_shape:
  fixes raw :: "8 word array3"
  assumes "has_shape h w 3 raw" "0 < h" "0 < w"
  shows "has_shape 3 h w (img_exr raw) \<and>
     (\<forall>c i j. c < 3 \<and> i < h \<and> j < w \<longrightarrow>
        img_exr raw ! c ! i ! j = img_linear_boosted raw ! i ! j ! c)"
proof -
  have b: "has_shape h w 3 (img_linear_boosted raw)"
    using assms(1) by (rule has_shape_img_linear_boosted)
  have "has_shape 3 h w (img_exr raw)"
    unfolding img_exr_def using b assms(2,3) by (rule has_shape_transpose_201)
  moreover have "img_exr raw ! c ! i ! j = img_linear_boosted raw ! i ! j ! c"
    if "c < 3" "i < h" "j < w" for c i j
    unfolding img_exr_def using b that by (rule nth_transpose_201)
  ultimately show ?thesis by blast
qed

theorem img_exr_shape_witness:
  "has_shape 3 1 2 (img_exr [[[255, 255, 255], [255, 255, 0]]])"
  using img_exr_shape [of 1 2 "[[[255, 255, 255], [255, 255, 0]]]"]
  by (simp add: has_shape_def)

text \<open>
  Claim C4. Every value of the output is at least \<open>0\<close>; a value of a pixel the mask
  leaves alone is at most the conversion of \<open>1\<close>, which is \<open>1\<close>, and a value of a boosted
  pixel is at most \<open>10\<close>. The samples of the input lie in \<open>[0, 255]\<close> by their type.
\<close>

theorem output_bounds:
  fixes raw :: "8 word array3"
  assumes "has_shape h w 3 raw" "i < h" "j < w" "c < 3"
  shows "0 \<le> img_exr raw ! c ! i ! j \<and>
     (if pure_white_mask raw ! i ! j then img_exr raw ! c ! i ! j \<le> 10
      else img_exr raw ! c ! i ! j \<le> transfer 1) \<and> transfer 1 = 1"
proof -
  have b: "has_shape h w 3 (img_linear_boosted raw)"
    using assms(1) by (rule has_shape_img_linear_boosted)
  have r: "i < length raw" "j < length (raw ! i)" "c < length (raw ! i ! j)"
    using assms by (simp_all add: has_shape_nth)
  have rng: "0 \<le> img_srgb raw ! i ! j ! c" "img_srgb raw ! i ! j ! c \<le> 1"
    using img_srgb_range [OF r] by simp_all
  have l: "length (img_linear raw ! i ! j) = 3"
    using has_shape_img_linear [OF assms(1)] assms by (simp add: has_shape_nth)
  have lin: "img_linear raw ! i ! j ! c = transfer (img_srgb raw ! i ! j ! c)"
    using assms by (rule nth_img_linear)
  have "img_exr raw ! c ! i ! j = img_linear_boosted raw ! i ! j ! c"
    unfolding img_exr_def using b assms(4,2,3) by (rule nth_transpose_201)
  also have "\<dots> = (if pure_white_mask raw ! i ! j then img_linear raw ! i ! j ! c * 10
      else img_linear raw ! i ! j ! c)"
    using nth_img_linear_boosted [OF assms(1,2,3)] l assms(4) by simp
  finally have out: "img_exr raw ! c ! i ! j =
      (if pure_white_mask raw ! i ! j then transfer (img_srgb raw ! i ! j ! c) * 10
       else transfer (img_srgb raw ! i ! j ! c))"
    using lin by simp
  show ?thesis
    using out transfer_nonneg [OF rng(1)] transfer_le_1 [OF rng] transfer_1 by auto
qed

theorem output_bounds_witness:
  "0 \<le> img_exr [[[255, 255, 255], [255, 128, 0]]] ! 1 ! 0 ! 1 \<and>
   img_exr [[[255, 255, 255], [255, 128, 0]]] ! 1 ! 0 ! 1 \<le> 1"
  using output_bounds [of 1 2 "[[[255, 255, 255], [255, 128, 0]]]" 0 1 1]
  by (simp add: has_shape_def pure_white_mask_def np_all_last_def img_srgb_def ew3_def)




text \<open>
  Claim C9. \<open>srgb_to_linear\<close> is monotone on \<open>[0, 1]\<close>: of two samples, at any two
  positions of any two buffers, the smaller one has the smaller or equal conversion. At
  the threshold the step from the linear to the power branch goes upwards.
\<close>

theorem srgb_to_linear_mono:
  assumes "i < length a" "j < length (a ! i)" "c < length (a ! i ! j)"
    and "i' < length b" "j' < length (b ! i')" "c' < length (b ! i' ! j')"
    and "0 \<le> a ! i ! j ! c" "a ! i ! j ! c \<le> b ! i' ! j' ! c'" "b ! i' ! j' ! c' \<le> 1"
  shows "srgb_to_linear a ! i ! j ! c \<le> srgb_to_linear b ! i' ! j' ! c'"
  using assms by (simp add: nth_srgb_to_linear transfer_mono)

theorem srgb_to_linear_mono_witness:
  "srgb_to_linear [[[0.04, 0.5, 1]]] ! 0 ! 0 ! 0 \<le> srgb_to_linear [[[0.04, 0.5, 1]]] ! 0 ! 0 ! 1"
  using srgb_to_linear_mono [of 0 "[[[0.04, 0.5, 1]]]" 0 0 0 "[[[0.04, 0.5, 1]]]" 0 1]
  by simp

section \<open>The export loop\<close>

lemma do_call_fields:
  "stdout (snd (do_call L c st)) = stdout st"
  "attempts (snd (do_call L c st)) = attempts st"
  "calls (snd (do_call L c st)) = calls st @ [c]"
  by (simp_all add: do_call_def split: prod.splits)

lemma try_body_stdout: "stdout (snd (try_body L img arr fmt file st)) = stdout st"
  by (simp add: try_body_def Let_def do_call_fields split: sum.splits)

lemma try_body_attempts: "attempts (snd (try_body L img arr fmt file st)) = attempts st"
  by (simp add: try_body_def Let_def do_call_fields split: sum.splits)

lemma try_body_calls:
  "calls E = [] \<Longrightarrow>
   calls (snd (try_body L img arr fmt fname st)) =
   calls st @ calls (snd (try_body L img arr fmt fname E))"
  by (simp add: try_body_def Let_def do_call_fields split: sum.splits)

lemma export_loop_Some:
  "export_loop L img arr ((ext, Some fmt) # rest) st =
     export_loop L img arr rest
       (print (log_line (Attempt ext (path_join output_dir (ext @ ''.'' @ ext))
                 (fst (try_body L img arr fmt (path_join output_dir (ext @ ''.'' @ ext)) st))))
          ((snd (try_body L img arr fmt (path_join output_dir (ext @ ''.'' @ ext)) st))
             \<lparr>attempts := attempts (snd (try_body L img arr fmt (path_join output_dir (ext @ ''.'' @ ext)) st)) @
                [Attempt ext (path_join output_dir (ext @ ''.'' @ ext))
                   (fst (try_body L img arr fmt (path_join output_dir (ext @ ''.'' @ ext)) st))]\<rparr>))"
  by (cases "try_body L img arr fmt (path_join output_dir (ext @ ''.'' @ ext)) st")
    (simp add: Let_def split: option.splits)

lemma export_loop_attempts:
  "map (\<lambda>a. (a_ext a, a_file a)) (attempts (export_loop L img arr fs st)) =
   map (\<lambda>a. (a_ext a, a_file a)) (attempts st) @
   concat (map (\<lambda>(ext, fmt). case fmt of None \<Rightarrow> []
      | Some f \<Rightarrow> [(ext, path_join output_dir (ext @ ''.'' @ ext))]) fs)"
proof (induction fs arbitrary: st)
  case Nil
  then show ?case by simp
next
  case (Cons p fs)
  obtain ext fmt where p: "p = (ext, fmt)" by (cases p)
  show ?case
  proof (cases fmt)
    case None
    with p Cons.IH show ?thesis by (simp add: print_def)
  next
    case (Some f)
    with p show ?thesis
      by (simp only: export_loop_Some Cons.IH) (simp add: print_def try_body_attempts)
  qed
qed

lemma export_loop_stdout:
  "list_all (\<lambda>(ext, fmt). fmt \<noteq> None) fs \<Longrightarrow> stdout st = map log_line (attempts st) \<Longrightarrow>
   stdout (export_loop L img arr fs st) = map log_line (attempts (export_loop L img arr fs st))"
proof (induction fs arbitrary: st)
  case Nil
  then show ?case by simp
next
  case (Cons p fs)
  obtain ext f where p: "p = (ext, Some f)" using Cons.prems(1) by (cases p) auto
  have rest: "list_all (\<lambda>(ext, fmt). fmt \<noteq> None) fs" using Cons.prems(1) by simp
  show ?case
    unfolding p export_loop_Some
    by (rule Cons.IH [OF rest])
      (simp add: print_def try_body_attempts try_body_stdout Cons.prems(2))
qed

lemma export_loop_calls:
  assumes "calls E = []"
  shows "calls (export_loop L img arr fs st) =
     calls st @
     concat (map (\<lambda>(ext, fmt). case fmt of None \<Rightarrow> []
        | Some f \<Rightarrow> calls (snd (try_body L img arr f (path_join output_dir (ext @ ''.'' @ ext)) E))) fs)"
proof (induction fs arbitrary: st)
  case Nil
  then show ?case by simp
next
  case (Cons p fs)
  obtain ext fmt where p: "p = (ext, fmt)" by (cases p)
  show ?case
  proof (cases fmt)
    case None
    with p show ?thesis by (simp add: Cons.IH print_def)
  next
    case (Some f)
    with p show ?thesis
      by (simp only: export_loop_Some Cons.IH)
        (simp add: print_def try_body_calls [OF assms, of _ _ _ _ _ st])
  qed
qed

lemma formats_all_Some: "list_all (\<lambda>(ext, fmt). fmt \<noteq> None) formats"
  by (simp add: formats_def)

lemma take_last_rgb:
  assumes "has_shape h w 3 a" "0 < h" "0 < w"
  shows "take_last [2, 1, 0] a = Inr (map (map (\<lambda>px. [px ! 2, px ! 1, px ! 0])) a)"
  using shape2_has_shape [OF assms] by (simp add: take_last_def)

lemma take_8_log_line: "take 8 (log_line a) \<noteq> ''Skipping''"
proof (cases a)
  case (Attempt ext fname r)
  then show ?thesis by (cases r) simp_all
qed






section \<open>The LDR export\<close>





text \<open>
  Claim C10. No value of \<open>formats\<close> is \<^verbatim>\<open>None\<close>; so every key of the dictionary
  reaches the \<^verbatim>\<open>try\<close> statement and no line of the output is a \<^verbatim>\<open>Skipping\<close> line.
\<close>

theorem unsupported_branch_unreachable:
  "list_all (\<lambda>(ext, fmt). fmt \<noteq> None) formats \<and>
   map a_ext (attempts (export_ldr_formats L img wld)) = map fst formats \<and>
   list_all (\<lambda>line. take 8 line \<noteq> ''Skipping'') (stdout (export_ldr_formats L img wld))"
proof -
  let ?st = "export_ldr_formats L img wld"
  have "map fst (map (\<lambda>a. (a_ext a, a_file a)) (attempts ?st)) = map fst formats"
    unfolding export_ldr_formats_def export_loop_attempts
    by (simp add: formats_def)
  then have keys: "map a_ext (attempts ?st) = map fst formats"
    by (simp add: comp_def)
  have "stdout ?st = map log_line (attempts ?st)"
    unfolding export_ldr_formats_def
    by (rule export_loop_stdout [OF formats_all_Some]) simp
  then have "list_all (\<lambda>line. take 8 line \<noteq> ''Skipping'') (stdout ?st)"
    by (simp add: list_all_iff take_8_log_line)
  with keys formats_all_Some show ?thesis by simp
qed

theorem unsupported_branch_unreachable_witness:
  "map a_ext (attempts (export_ldr_formats
      \<lparr>convert = \<lambda>mode i. i, np_array = \<lambda>i. i, perform = \<lambda>c w. (Some ''disk full'', w)\<rparr>
      [[[1, 2, 3]]] ())) =
   [''bmp'', ''dds'', ''gif'', ''ico'', ''jpg'', ''qoi'', ''tga'', ''tif'', ''webp'', ''pam'', ''ppm'']"
  using unsupported_branch_unreachable
    [of "\<lparr>convert = \<lambda>mode i. i, np_array = \<lambda>i. i, perform = \<lambda>c w. (Some ''disk full'', w)\<rparr>"
      "[[[1, 2, 3]]]" "()"]
  by (simp add: formats_def)

text \<open>
  Claim C8. When \<^verbatim>\<open>np.array(img.convert("RGB"))\<close> has three channels, the writing calls
  of a run are the eleven below, whatever their outcomes. The array passed for
  \<^verbatim>\<open>dds\<close> has in every pixel the channels \<open>2, 1, 0\<close> of the decoded RGB image: red and
  blue are swapped and green stays. No other call receives a reordered array: \<^verbatim>\<open>pam\<close>
  gets \<^verbatim>\<open>np.array(img)\<close>, \<^verbatim>\<open>qoi\<close> the RGBA array, the others a Pillow image.
\<close>

theorem dds_channel_swap:
  assumes "has_shape h w 3 (np_array L (convert L ''RGB'' img))" "0 < h" "0 < w"
  shows "calls (export_ldr_formats L img wld) =
     [PilSave ''./bmp.bmp'' img ''BMP'',
      ImWrite ''./dds.dds''
        (map (map (\<lambda>px. [px ! 2, px ! 1, px ! 0])) (np_array L (convert L ''RGB'' img)))
        (Some ''.dds''),
      PilSave ''./gif.gif'' img ''GIF'',
      PilSave ''./ico.ico'' (convert L ''RGBA'' img) ''ICO'',
      PilSave ''./jpg.jpg'' img ''JPEG'',
      QoiWrite ''./qoi.qoi'' (np_array L (convert L ''RGBA'' img)),
      PilSave ''./tga.tga'' img ''TGA'',
      PilSave ''./tif.tif'' img ''TIFF'',
      PilSave ''./webp.webp'' img ''WEBP'',
      ImWrite ''./pam.pam'' (np_array L img) None,
      PilSave ''./ppm.ppm'' img ''PPM'']"
    (is "_ = ?rhs")
proof -
  let ?E = "\<lparr>world = wld, stdout = [], attempts = [], calls = []\<rparr>"
  have E: "calls ?E = []" by simp
  show ?thesis
    unfolding export_ldr_formats_def export_loop_calls [OF E]
    using take_last_rgb [OF assms]
    by (simp add: formats_def try_body_def do_call_fields path_join_def output_dir_def
        upper_def upper_char_def Let_def)
qed

theorem dds_channel_swap_witness:
  "calls (export_ldr_formats
      \<lparr>convert = \<lambda>mode i. i, np_array = \<lambda>i. i, perform = \<lambda>c w. (Some ''disk full'', w)\<rparr>
      [[[1, 2, 3], [4, 5, 6]]] ()) ! 1 =
   ImWrite ''./dds.dds'' [[[3, 2, 1], [6, 5, 4]]] (Some ''.dds'')"
  using dds_channel_swap
    [of 1 2 "\<lparr>convert = \<lambda>mode i. i, np_array = \<lambda>i. i, perform = \<lambda>c w. (Some ''disk full'', w)\<rparr>"
      "[[[1, 2, 3], [4, 5, 6]]]" "()"]
  by (simp add: has_shape_def)

end
